theory Spec2Isabelle
  imports Main
begin

section \<open>The dependency checklist of src/preprocess/common.py\<close>

text \<open>
  The class \<open>Test\<close> runs a fixed list of probe commands as child processes and
  imports a fixed list of modules. Everything it does is an effect on the operating
  system, so the model makes the effects explicit:
  \<^item> the interpreter and the operating system are a parameter, the record \<open>runtime\<close>:
    what happens when a given child process is started, what happens when a given
    module is imported, and how the interpreter prints a string with \<open>repr\<close>;
  \<^item> the \<open>world\<close> is passed through every call: the store of dictionary objects by
    address (the caller's dictionary is shared with the checker), the next child
    identifier, and the trace of process and import events in the order they happen;
  \<^item> a call returns a value, raises an exception, or never returns because it waits
    for a child that never exits (the source applies no timeout).
\<close>

subsection \<open>Exceptions and results\<close>

text \<open>
  The exceptions that can reach the code: \<open>FileNotFoundError\<close> when an executable is
  missing, \<open>OSError\<close> for every other failure to start a child (it stands for the
  subclasses of \<open>OSError\<close> other than \<open>FileNotFoundError\<close>, which
  \<open>except FileNotFoundError\<close> does not catch), \<open>CalledProcessError\<close> with the
  exit status and the command, the two import errors, \<open>OtherException\<close> for what a
  module's own code raises, and the two exception classes of the source.
\<close>

datatype exn =
    FileNotFoundError
  | OSError string
  | CalledProcessError int "string list"
  | KeyError string
  | TypeError string
  | ModuleNotFoundError string
  | ImportError string
  | OtherException string
  | UninstalledDependencyError string
  | MissingModuleError string

datatype 'a result = Returned 'a | Raised exn | Blocked

text \<open>
  \<open>class UninstalledDependencyError(Exception)\<close> and \<open>class MissingModuleError(Exception)\<close>:
  each constructor formats its message from \<open>item\<close> and \<open>msg\<close>; the datatype
  constructor holds the formatted message.
\<close>

definition apostrophe :: string where
  "apostrophe = [CHR 0x27]"

definition UninstalledDependencyError_init :: "string \<Rightarrow> string \<Rightarrow> exn" where
  "UninstalledDependencyError_init item msg =
     UninstalledDependencyError (item @ '' not installed ... '' @ msg)"

definition MissingModuleError_init :: "string \<Rightarrow> string \<Rightarrow> exn" where
  "MissingModuleError_init item msg =
     MissingModuleError (''python module(s) - '' @ apostrophe @ item @ apostrophe
        @ '' cannot be found ... '' @ msg)"

text \<open>\<open>except ImportError\<close> catches the class and its subclass \<open>ModuleNotFoundError\<close>.\<close>

fun isinstance_ImportError :: "exn \<Rightarrow> bool" where
  "isinstance_ImportError (ImportError m) = True"
| "isinstance_ImportError (ModuleNotFoundError m) = True"
| "isinstance_ImportError e = False"

subsection \<open>The runtime: child processes, imports, repr\<close>

text \<open>
  The standard streams a child is started with: inherited from the checker (and so
  shown on the user's console), a new pipe (\<open>subprocess.PIPE\<close>), the null sink
  (\<open>DEVNULL\<close>), or the read end of the pipe of a child started from the given
  argument vector (\<open>process_before_pipe.stdout\<close>).
\<close>

datatype stream = Inherited | PIPE | DEVNULL | StdoutOf "string list"

record popen_args =
  args :: "string list"
  stdin :: stream
  stdout :: stream
  stderr :: stream

text \<open>
  What starting a child does: the executable is not found, the start fails in another
  way (permission denied, an empty argument vector, ...), the child runs and exits
  with a status, or it runs and never exits.
\<close>

datatype outcome = NotFound | StartFails string | Exits int | NeverExits

text \<open>
  What \<open>importlib.import_module\<close> does: the module is imported, it is not found
  (\<open>ModuleNotFoundError\<close>), the import raises another \<open>ImportError\<close> (a name or a
  shared library that the module itself needs is missing), or the module's code raises
  an exception that is not an \<open>ImportError\<close>.
\<close>

datatype import_outcome =
    Imported
  | ModuleMissing string
  | ImportFails string
  | ImportCrashes string

record runtime =
  spawn :: "popen_args \<Rightarrow> outcome"
  find_module :: "string \<Rightarrow> import_outcome"
  repr :: "string \<Rightarrow> string"

text \<open>
  The events of a run, in order: a child was started (with its identifier and the
  streams it was given), a start failed, a child was waited on until it exited, a
  module import was attempted.
\<close>

datatype event =
    Spawned nat popen_args
  | StartFailed popen_args
  | Waited nat
  | Import string

type_synonym py_dict = "(string \<times> string list) list"

record world =
  dicts :: "nat \<Rightarrow> py_dict"
  next_pid :: nat
  trace :: "event list"

definition log :: "event \<Rightarrow> world \<Rightarrow> world" where
  "log e w = w\<lparr>trace := trace w @ [e]\<rparr>"

text \<open>Sequencing: an exception, or a call that never returns, ends what follows it.\<close>

fun and_then :: "'a result \<times> world \<Rightarrow> ('a \<Rightarrow> world \<Rightarrow> 'b result \<times> world) \<Rightarrow> 'b result \<times> world" where
  "and_then (Returned x, w) f = f x w"
| "and_then (Raised e, w) f = (Raised e, w)"
| "and_then (Blocked, w) f = (Blocked, w)"

subsection \<open>The subprocess module, as the source uses it\<close>

text \<open>
  A started child: its identifier and the status it exits with (\<open>None\<close> when it never
  exits). \<open>Popen\<close> starts the child and returns at once; \<open>wait\<close> blocks until the
  child has exited. \<open>check_call\<close> and \<open>check_output\<close> start a child, wait for it
  themselves and raise \<open>CalledProcessError\<close> on a non-zero status; \<open>check_output\<close>
  always captures the child's standard output in a pipe, and passes no \<open>stderr\<close>
  unless the caller gives one. The captured bytes are not modelled: the source drops
  them.
\<close>

record child =
  pid :: nat
  returncode :: "int option"

definition Popen :: "runtime \<Rightarrow> popen_args \<Rightarrow> world \<Rightarrow> child result \<times> world" where
  "Popen rt a w =
     (case spawn rt a of
        NotFound \<Rightarrow> (Raised FileNotFoundError, log (StartFailed a) w)
      | StartFails m \<Rightarrow> (Raised (OSError m), log (StartFailed a) w)
      | Exits c \<Rightarrow>
          (Returned \<lparr>pid = next_pid w, returncode = Some c\<rparr>,
           log (Spawned (next_pid w) a) (w\<lparr>next_pid := Suc (next_pid w)\<rparr>))
      | NeverExits \<Rightarrow>
          (Returned \<lparr>pid = next_pid w, returncode = None\<rparr>,
           log (Spawned (next_pid w) a) (w\<lparr>next_pid := Suc (next_pid w)\<rparr>)))"

definition wait :: "child \<Rightarrow> world \<Rightarrow> int result \<times> world" where
  "wait p w =
     (case returncode p of
        None \<Rightarrow> (Blocked, w)
      | Some c \<Rightarrow> (Returned c, log (Waited (pid p)) w))"

definition check_call :: "runtime \<Rightarrow> string list \<Rightarrow> stream \<Rightarrow> stream \<Rightarrow> world \<Rightarrow> unit result \<times> world" where
  "check_call rt cmd out err w =
     and_then (Popen rt \<lparr>args = cmd, stdin = Inherited, stdout = out, stderr = err\<rparr> w)
       (\<lambda>p w1. and_then (wait p w1)
          (\<lambda>retcode w2.
             if retcode \<noteq> 0 then (Raised (CalledProcessError retcode cmd), w2)
             else (Returned (), w2)))"

definition check_output :: "runtime \<Rightarrow> string list \<Rightarrow> stream \<Rightarrow> world \<Rightarrow> unit result \<times> world" where
  "check_output rt cmd inp w =
     and_then (Popen rt \<lparr>args = cmd, stdin = inp, stdout = PIPE, stderr = Inherited\<rparr> w)
       (\<lambda>p w1. and_then (wait p w1)
          (\<lambda>retcode w2.
             if retcode \<noteq> 0 then (Raised (CalledProcessError retcode cmd), w2)
             else (Returned (), w2)))"

definition import_module :: "runtime \<Rightarrow> string \<Rightarrow> world \<Rightarrow> unit result \<times> world" where
  "import_module rt name w =
     (case find_module rt name of
        Imported \<Rightarrow> (Returned (), log (Import name) w)
      | ModuleMissing m \<Rightarrow> (Raised (ModuleNotFoundError m), log (Import name) w)
      | ImportFails m \<Rightarrow> (Raised (ImportError m), log (Import name) w)
      | ImportCrashes m \<Rightarrow> (Raised (OtherException m), log (Import name) w))"

subsection \<open>Dictionaries and the read-only proxy\<close>

text \<open>
  A Python dictionary keeps its keys in insertion order: an association list.
  \<open>MappingProxyType d\<close> is a read-only view of the dictionary object \<open>d\<close>: it holds
  the address of \<open>d\<close>, reads go to the object at that address, and a write through
  the proxy raises \<open>TypeError\<close>. A write to the dictionary itself updates the object
  in the store.
\<close>

datatype mappingproxy = MappingProxyType nat

fun proxied :: "mappingproxy \<Rightarrow> nat" where
  "proxied (MappingProxyType a) = a"

definition dict_keys :: "py_dict \<Rightarrow> string list" where
  "dict_keys d = map fst d"

definition dict_contains :: "py_dict \<Rightarrow> string \<Rightarrow> bool" where
  "dict_contains d k = (k \<in> set (dict_keys d))"

definition dict_getitem :: "py_dict \<Rightarrow> string \<Rightarrow> string list result" where
  "dict_getitem d k =
     (case map_of d k of None \<Rightarrow> Raised (KeyError k) | Some v \<Rightarrow> Returned v)"

fun dict_store :: "py_dict \<Rightarrow> string \<Rightarrow> string list \<Rightarrow> py_dict" where
  "dict_store [] k v = [(k, v)]"
| "dict_store ((k', v') # d) k v =
     (if k' = k then (k, v) # d else (k', v') # dict_store d k v)"

definition dict_setitem :: "nat \<Rightarrow> string \<Rightarrow> string list \<Rightarrow> world \<Rightarrow> unit result \<times> world" where
  "dict_setitem a k v w = (Returned (), w\<lparr>dicts := (dicts w)(a := dict_store (dicts w a) k v)\<rparr>)"

definition proxy_setitem :: "mappingproxy \<Rightarrow> string \<Rightarrow> string list \<Rightarrow> world \<Rightarrow> unit result \<times> world" where
  "proxy_setitem p k v w =
     (Raised (TypeError ''mappingproxy object does not support item assignment''), w)"

definition proxy_dict :: "mappingproxy \<Rightarrow> world \<Rightarrow> py_dict" where
  "proxy_dict p w = dicts w (proxied p)"

fun join :: "string \<Rightarrow> string list \<Rightarrow> string" where
  "join sep [] = []"
| "join sep [x] = x"
| "join sep (x # y # ys) = x @ sep @ join sep (y # ys)"

text \<open>The text of \<open>d.keys()\<close> inside an f-string.\<close>

definition keys_str :: "runtime \<Rightarrow> string list \<Rightarrow> string" where
  "keys_str rt ks = ''dict_keys(['' @ join '', '' (map (repr rt) ks) @ ''])''"

subsection \<open>class Test\<close>

record Test =
  ubuntu_todos :: mappingproxy
  python_modules :: "string list"

text \<open>\<open>__init__\<close>: the argument is the address of the caller's dictionary.\<close>

definition Test_init :: "nat \<Rightarrow> Test" where
  "Test_init ubuntu_commands =
     \<lparr>ubuntu_todos = MappingProxyType ubuntu_commands, python_modules = []\<rparr>"

text \<open>
  \<open>cmds.index('|')\<close> is the position of the first pipe token; the source calls it only
  when the token is present. \<open>cmds[:i]\<close> and \<open>cmds[i + 1:]\<close> are \<open>take\<close> and
  \<open>drop\<close>.
\<close>

definition index_of :: "string list \<Rightarrow> string \<Rightarrow> nat" where
  "index_of xs x = length (takeWhile (\<lambda>y. y \<noteq> x) xs)"

definition run_cmd :: "runtime \<Rightarrow> string list \<Rightarrow> world \<Rightarrow> unit result \<times> world" where
  "run_cmd rt cmds w =
     (let has_pipe = (''|'' \<in> set cmds) in
      if has_pipe then
        (let index_of_pipe = index_of cmds ''|'' in
         and_then
           (Popen rt \<lparr>args = take index_of_pipe cmds, stdin = Inherited,
                      stdout = PIPE, stderr = Inherited\<rparr> w)
           (\<lambda>process_before_pipe w1.
              and_then
                (check_output rt (drop (index_of_pipe + 1) cmds)
                   (StdoutOf (take index_of_pipe cmds)) w1)
                (\<lambda>_ w2. and_then (wait process_before_pipe w2)
                   (\<lambda>_ w3. (Returned (), w3)))))
      else check_call rt cmds DEVNULL DEVNULL w)"

text \<open>
  \<open>not_installed\<close>: \<open>installed\<close> starts as true and becomes false only in the
  handler of \<open>FileNotFoundError\<close>; the method returns its negation. Every other
  exception of \<open>run_cmd\<close> leaves the method.
\<close>

definition not_installed :: "runtime \<Rightarrow> Test \<Rightarrow> string \<Rightarrow> world \<Rightarrow> bool result \<times> world" where
  "not_installed rt self component w =
     (if \<not> dict_contains (proxy_dict (ubuntu_todos self) w) component then
        (Raised (KeyError (''Invalid validation component: '' @ component @ ''. ''
           @ ''Available components to validate: ''
           @ keys_str rt (dict_keys (proxy_dict (ubuntu_todos self) w)))), w)
      else
        (case dict_getitem (proxy_dict (ubuntu_todos self) w) component of
           Raised e \<Rightarrow> (Raised e, w)
         | Blocked \<Rightarrow> (Blocked, w)
         | Returned cmds \<Rightarrow>
             (case run_cmd rt cmds w of
                (Raised FileNotFoundError, w') \<Rightarrow> (Returned True, w')
              | (Raised e, w') \<Rightarrow> (Raised e, w')
              | (Blocked, w') \<Rightarrow> (Blocked, w')
              | (Returned _, w') \<Rightarrow> (Returned False, w'))))"

text \<open>
  The list comprehension of \<open>check_dependencies\<close>: every item of the checklist in
  order, keeping the names for which \<open>not_installed\<close> returns true.
\<close>

fun uninstalled_scan :: "runtime \<Rightarrow> Test \<Rightarrow> (string \<times> string list) list \<Rightarrow> world \<Rightarrow> string list result \<times> world" where
  "uninstalled_scan rt self [] w = (Returned [], w)"
| "uninstalled_scan rt self ((checklist_item, commands) # rest) w =
     and_then (not_installed rt self checklist_item w)
       (\<lambda>b w1. and_then (uninstalled_scan rt self rest w1)
          (\<lambda>found w2. (Returned (if b then checklist_item # found else found), w2)))"

text \<open>The \<open>for\<close> loop over \<open>python_modules\<close>, with the list it appends to.\<close>

fun module_scan :: "runtime \<Rightarrow> string list \<Rightarrow> string list \<Rightarrow> world \<Rightarrow> string list result \<times> world" where
  "module_scan rt [] uninstalled_python_items w = (Returned uninstalled_python_items, w)"
| "module_scan rt (python_module # rest) uninstalled_python_items w =
     (case import_module rt python_module w of
        (Returned _, w1) \<Rightarrow> module_scan rt rest uninstalled_python_items w1
      | (Raised e, w1) \<Rightarrow>
          if isinstance_ImportError e
          then module_scan rt rest (uninstalled_python_items @ [python_module]) w1
          else (Raised e, w1)
      | (Blocked, w1) \<Rightarrow> (Blocked, w1))"

definition check_dependencies :: "runtime \<Rightarrow> Test \<Rightarrow> world \<Rightarrow> unit result \<times> world" where
  "check_dependencies rt self w =
     and_then (uninstalled_scan rt self (proxy_dict (ubuntu_todos self) w) w)
       (\<lambda>uninstalled_items w1.
          and_then (module_scan rt (python_modules self) [] w1)
            (\<lambda>uninstalled_python_items w2.
               if length uninstalled_items > 0 then
                 (Raised (UninstalledDependencyError_init (join '', '' uninstalled_items) ''''), w2)
               else if length uninstalled_python_items > 0 then
                 (Raised (MissingModuleError_init (join '', '' uninstalled_python_items) ''''), w2)
               else (Returned (), w2)))"

subsection \<open>Notions used in the statements\<close>

text \<open>
  \<open>import_error\<close>: importing the module raises an \<open>ImportError\<close> (the class or its
  subclass \<open>ModuleNotFoundError\<close>). \<open>import_crashes\<close>: importing it raises
  another exception.
\<close>

definition import_error :: "runtime \<Rightarrow> string \<Rightarrow> bool" where
  "import_error rt m =
     (case find_module rt m of
        Imported \<Rightarrow> False | ModuleMissing _ \<Rightarrow> True | ImportFails _ \<Rightarrow> True | ImportCrashes _ \<Rightarrow> False)"

definition import_crashes :: "runtime \<Rightarrow> string \<Rightarrow> bool" where
  "import_crashes rt m =
     (case find_module rt m of
        Imported \<Rightarrow> False | ModuleMissing _ \<Rightarrow> False | ImportFails _ \<Rightarrow> False | ImportCrashes _ \<Rightarrow> True)"

text \<open>
  The world after probing every component of a list in order, and after importing
  every module of a list in order, whatever the results.
\<close>

definition probe_all :: "runtime \<Rightarrow> Test \<Rightarrow> string list \<Rightarrow> world \<Rightarrow> world" where
  "probe_all rt self ks w = foldl (\<lambda>u k. snd (not_installed rt self k u)) w ks"

definition import_all :: "runtime \<Rightarrow> string list \<Rightarrow> world \<Rightarrow> world" where
  "import_all rt ms w = foldl (\<lambda>u m. snd (import_module rt m u)) w ms"

text \<open>The exceptions that running a child process can raise.\<close>

fun process_error :: "exn \<Rightarrow> bool" where
  "process_error FileNotFoundError = True"
| "process_error (OSError m) = True"
| "process_error (CalledProcessError c a) = True"
| "process_error e = False"

text \<open>The two aggregate errors of \<open>check_dependencies\<close>.\<close>

fun aggregate_error :: "exn \<Rightarrow> bool" where
  "aggregate_error (UninstalledDependencyError m) = True"
| "aggregate_error (MissingModuleError m) = True"
| "aggregate_error e = False"

subsection \<open>A concrete runtime and world\<close>

text \<open>
  An environment for the concrete runs below: the executable \<open>absent\<close> is not
  installed, \<open>false\<close> exits with status 1, \<open>ls\<close> with status 2, everything else
  with status 0; the module \<open>nonexistent_mod_xyz\<close> is not found, \<open>broken_ext\<close>
  is found but its import raises \<open>ImportError\<close>, \<open>crashing\<close> raises a
  \<open>RuntimeError\<close> when imported. The world holds one dictionary, at address 0.
\<close>

definition example_runtime :: runtime where
  "example_runtime =
     \<lparr>spawn = (\<lambda>a. case args a of
                  [] \<Rightarrow> StartFails ''IndexError''
                | exe # _ \<Rightarrow>
                    if exe = ''absent'' then NotFound
                    else if exe = ''false'' then Exits 1
                    else if exe = ''ls'' then Exits 2
                    else Exits 0),
      find_module = (\<lambda>m. if m = ''nonexistent_mod_xyz'' then ModuleMissing m
                  else if m = ''broken_ext'' then ImportFails ''cannot open shared object file''
                  else if m = ''crashing'' then ImportCrashes ''RuntimeError''
                  else Imported),
      repr = (\<lambda>s. apostrophe @ s @ apostrophe)\<rparr>"

definition example_world :: "py_dict \<Rightarrow> world" where
  "example_world d = \<lparr>dicts = (\<lambda>a. if a = 0 then d else []), next_pid = 0, trace = []\<rparr>"

text \<open>
  The children \<open>run_cmd\<close> starts: the two stages of a piped command, and the single
  child of a command without a pipe.
\<close>

definition left_stage :: "string list \<Rightarrow> popen_args" where
  "left_stage cmds =
     \<lparr>args = take (index_of cmds ''|'') cmds, stdin = Inherited, stdout = PIPE, stderr = Inherited\<rparr>"

definition right_stage :: "string list \<Rightarrow> popen_args" where
  "right_stage cmds =
     \<lparr>args = drop (index_of cmds ''|'' + 1) cmds, stdin = StdoutOf (take (index_of cmds ''|'') cmds),
      stdout = PIPE, stderr = Inherited\<rparr>"

definition single_stage :: "string list \<Rightarrow> popen_args" where
  "single_stage cmds = \<lparr>args = cmds, stdin = Inherited, stdout = DEVNULL, stderr = DEVNULL\<rparr>"

section \<open>Properties\<close>

subsection \<open>What a probe depends on, and what it leaves alone\<close>

text \<open>
  No call of the class writes to a dictionary, and the result of a probe depends on the
  world only through the dictionaries: the trace and the child identifiers do not
  influence it.
\<close>

lemma dicts_log [simp]: "dicts (log e w) = dicts w"
  by (simp add: log_def)

lemma dicts_Popen: "dicts (snd (Popen rt a w)) = dicts w"
  by (simp add: Popen_def split: outcome.splits)

lemma dicts_wait: "dicts (snd (wait p w)) = dicts w"
  by (simp add: wait_def split: option.splits)

lemma dicts_run_cmd: "dicts (snd (run_cmd rt cmds w)) = dicts w"
  by (simp add: run_cmd_def check_call_def check_output_def Popen_def wait_def Let_def
      split: outcome.splits)

lemma run_cmd_result_any_world: "fst (run_cmd rt cmds w) = fst (run_cmd rt cmds w')"
  by (simp add: run_cmd_def check_call_def check_output_def Popen_def wait_def Let_def
      split: outcome.splits)

lemma not_installed_fst:
  "fst (not_installed rt self k w) =
     (if \<not> dict_contains (proxy_dict (ubuntu_todos self) w) k then
        Raised (KeyError (''Invalid validation component: '' @ k @ ''. ''
           @ ''Available components to validate: ''
           @ keys_str rt (dict_keys (proxy_dict (ubuntu_todos self) w))))
      else
        (case dict_getitem (proxy_dict (ubuntu_todos self) w) k of
           Raised e \<Rightarrow> Raised e
         | Blocked \<Rightarrow> Blocked
         | Returned cmds \<Rightarrow>
             (case fst (run_cmd rt cmds w) of
                Raised FileNotFoundError \<Rightarrow> Returned True
              | Raised e \<Rightarrow> Raised e
              | Blocked \<Rightarrow> Blocked
              | Returned _ \<Rightarrow> Returned False)))"
  by (simp add: not_installed_def split: result.splits prod.splits exn.splits)

lemma not_installed_snd:
  "snd (not_installed rt self k w) =
     (if \<not> dict_contains (proxy_dict (ubuntu_todos self) w) k then w
      else
        (case dict_getitem (proxy_dict (ubuntu_todos self) w) k of
           Raised e \<Rightarrow> w
         | Blocked \<Rightarrow> w
         | Returned cmds \<Rightarrow> snd (run_cmd rt cmds w)))"
  by (simp add: not_installed_def split: result.splits prod.splits exn.splits)

lemma dicts_not_installed: "dicts (snd (not_installed rt self k w)) = dicts w"
  by (simp add: not_installed_snd dicts_run_cmd split: result.splits)

lemma not_installed_result_any_world:
  assumes "dicts w = dicts w'"
  shows "fst (not_installed rt self k w) = fst (not_installed rt self k w')"
proof -
  have d: "proxy_dict (ubuntu_todos self) w = proxy_dict (ubuntu_todos self) w'"
    using assms by (simp add: proxy_dict_def)
  show ?thesis
  proof (cases "dict_getitem (proxy_dict (ubuntu_todos self) w') k")
    case (Returned cmds)
    have "fst (run_cmd rt cmds w) = fst (run_cmd rt cmds w')"
      by (rule run_cmd_result_any_world)
    with Returned d show ?thesis
      by (simp add: not_installed_fst)
  next
    case (Raised e)
    with d show ?thesis by (simp add: not_installed_fst)
  next
    case Blocked
    with d show ?thesis by (simp add: not_installed_fst)
  qed
qed

subsection \<open>The two scans of \<open>check_dependencies\<close>\<close>

lemma dicts_probe_all: "dicts (probe_all rt self ks w) = dicts w"
  unfolding probe_all_def
  by (induction ks arbitrary: w) (simp_all add: dicts_not_installed)

lemma uninstalled_scan_Returned:
  "uninstalled_scan rt self items w = (Returned found, w1) \<Longrightarrow>
     found = filter (\<lambda>k. fst (not_installed rt self k w) = Returned True) (map fst items)
     \<and> (\<forall>k \<in> set (map fst items). \<exists>b. fst (not_installed rt self k w) = Returned b)
     \<and> w1 = probe_all rt self (map fst items) w"
proof (induction items arbitrary: w found w1)
  case Nil
  then show ?case by (simp add: probe_all_def)
next
  case (Cons item rest)
  obtain k cmds where item: "item = (k, cmds)" by (cases item)
  obtain r u where step: "not_installed rt self k w = (r, u)" by (cases "not_installed rt self k w")
  from Cons.prems item step obtain b where r: "r = Returned b"
    by (cases r) auto
  obtain r2 u2 where rest: "uninstalled_scan rt self rest u = (r2, u2)"
    by (cases "uninstalled_scan rt self rest u")
  from Cons.prems item step r rest obtain found' where r2: "r2 = Returned found'"
    by (cases r2) auto
  from Cons.prems item step r rest r2
  have found: "found = (if b then k # found' else found')" and w1: "w1 = u2"
    by auto
  have u: "u = snd (not_installed rt self k w)" using step by simp
  have same: "dicts u = dicts w" using u by (simp add: dicts_not_installed)
  have indep: "\<And>x. fst (not_installed rt self x u) = fst (not_installed rt self x w)"
    by (rule not_installed_result_any_world [OF same])
  from Cons.IH [OF rest [unfolded r2]]
  have ih1: "found' = filter (\<lambda>k. fst (not_installed rt self k w) = Returned True) (map fst rest)"
    and ih2: "\<forall>k \<in> set (map fst rest). \<exists>b. fst (not_installed rt self k w) = Returned b"
    and ih3: "u2 = probe_all rt self (map fst rest) u"
    by (simp_all add: indep)
  have here: "fst (not_installed rt self k w) = Returned b" using step r by simp
  show ?case
    using found w1 ih1 ih2 ih3 here u item
    by (auto simp: probe_all_def)
qed

lemma uninstalled_scan_Raised:
  "uninstalled_scan rt self items w = (Raised e, w1) \<Longrightarrow>
     \<exists>k \<in> set (map fst items). fst (not_installed rt self k w) = Raised e"
proof (induction items arbitrary: w w1)
  case Nil
  then show ?case by simp
next
  case (Cons item rest)
  obtain k cmds where item: "item = (k, cmds)" by (cases item)
  obtain r u where step: "not_installed rt self k w = (r, u)" by (cases "not_installed rt self k w")
  show ?case
  proof (cases r)
    case (Returned b)
    obtain r2 u2 where rest: "uninstalled_scan rt self rest u = (r2, u2)"
      by (cases "uninstalled_scan rt self rest u")
    from Cons.prems item step Returned rest have "r2 = Raised e"
      by (cases r2) auto
    from Cons.IH [OF rest [unfolded this]]
    obtain x where x: "x \<in> set (map fst rest)" "fst (not_installed rt self x u) = Raised e"
      by blast
    have "dicts u = dicts w" using step dicts_not_installed [of rt self k w] by simp
    from not_installed_result_any_world [OF this] x
    have "fst (not_installed rt self x w) = Raised e" by simp
    with x(1) show ?thesis by auto
  next
    case (Raised e')
    with Cons.prems item step have "e' = e" by simp
    with Raised step item show ?thesis by simp
  next
    case Blocked
    with Cons.prems item step show ?thesis by simp
  qed
qed

lemma uninstalled_scan_total:
  "\<forall>k \<in> set (map fst items). \<exists>b. fst (not_installed rt self k w) = Returned b \<Longrightarrow>
     \<exists>found w1. uninstalled_scan rt self items w = (Returned found, w1)"
proof (induction items arbitrary: w)
  case Nil
  then show ?case by simp
next
  case (Cons item rest)
  obtain k cmds where item: "item = (k, cmds)" by (cases item)
  from Cons.prems item obtain b where b: "fst (not_installed rt self k w) = Returned b"
    by auto
  define u where "u = snd (not_installed rt self k w)"
  have step: "not_installed rt self k w = (Returned b, u)"
    using b u_def by (cases "not_installed rt self k w") simp
  have "dicts u = dicts w" by (simp add: u_def dicts_not_installed)
  from not_installed_result_any_world [OF this] Cons.prems
  have "\<forall>k \<in> set (map fst rest). \<exists>b. fst (not_installed rt self k u) = Returned b"
    by simp
  from Cons.IH [OF this] obtain found w1 where "uninstalled_scan rt self rest u = (Returned found, w1)"
    by blast
  with step item show ?case by simp
qed

lemma module_scan_Returned:
  "module_scan rt mods acc w = (Returned r, w1) \<Longrightarrow>
     r = acc @ filter (import_error rt) mods
     \<and> (\<forall>m \<in> set mods. \<not> import_crashes rt m)
     \<and> w1 = import_all rt mods w"
proof (induction mods arbitrary: acc w)
  case Nil
  then show ?case by (simp add: import_all_def)
next
  case (Cons m rest)
  show ?case
  proof (cases "find_module rt m")
    case Imported
    with Cons.prems have "module_scan rt rest acc (log (Import m) w) = (Returned r, w1)"
      by (simp add: import_module_def)
    from Cons.IH [OF this] Imported show ?thesis
      by (simp add: import_error_def import_crashes_def import_all_def import_module_def)
  next
    case (ModuleMissing s)
    with Cons.prems have "module_scan rt rest (acc @ [m]) (log (Import m) w) = (Returned r, w1)"
      by (simp add: import_module_def)
    from Cons.IH [OF this] ModuleMissing show ?thesis
      by (simp add: import_error_def import_crashes_def import_all_def import_module_def)
  next
    case (ImportFails s)
    with Cons.prems have "module_scan rt rest (acc @ [m]) (log (Import m) w) = (Returned r, w1)"
      by (simp add: import_module_def)
    from Cons.IH [OF this] ImportFails show ?thesis
      by (simp add: import_error_def import_crashes_def import_all_def import_module_def)
  next
    case (ImportCrashes s)
    with Cons.prems show ?thesis by (simp add: import_module_def)
  qed
qed

lemma module_scan_no_crash:
  "\<forall>m \<in> set mods. \<not> import_crashes rt m \<Longrightarrow>
     module_scan rt mods acc w = (Returned (acc @ filter (import_error rt) mods), import_all rt mods w)"
proof (induction mods arbitrary: acc w)
  case Nil
  then show ?case by (simp add: import_all_def)
next
  case (Cons m rest)
  then show ?case
    by (cases "find_module rt m")
       (simp_all add: import_error_def import_crashes_def import_all_def import_module_def)
qed

lemma module_scan_crash:
  "\<forall>m \<in> set pre. \<not> import_crashes rt m \<Longrightarrow> find_module rt m = ImportCrashes s \<Longrightarrow>
     module_scan rt (pre @ m # post) acc w =
       (Raised (OtherException s), log (Import m) (import_all rt pre w))"
proof (induction pre arbitrary: acc w)
  case Nil
  then show ?case by (simp add: import_all_def import_module_def)
next
  case (Cons x pre)
  then show ?case
    by (cases "find_module rt x")
       (simp_all add: import_error_def import_crashes_def import_all_def import_module_def)
qed

lemma module_scan_Raised:
  "module_scan rt mods acc w = (Raised e, w1) \<Longrightarrow>
     \<exists>m \<in> set mods. \<exists>s. find_module rt m = ImportCrashes s \<and> e = OtherException s"
proof (induction mods arbitrary: acc w)
  case Nil
  then show ?case by simp
next
  case (Cons m rest)
  then show ?case
    by (cases "find_module rt m") (auto simp: import_module_def)
qed

subsection \<open>Dictionary lookups\<close>

lemma dict_getitem_contains: "dict_getitem d k = Returned v \<Longrightarrow> dict_contains d k"
proof -
  assume "dict_getitem d k = Returned v"
  then have "map_of d k = Some v"
    by (simp add: dict_getitem_def split: option.splits)
  then have "(k, v) \<in> set d" by (rule map_of_SomeD)
  then have "k \<in> fst ` set d" by force
  then show ?thesis by (simp add: dict_contains_def dict_keys_def)
qed

lemma dict_contains_getitem: "dict_contains d k \<Longrightarrow> \<exists>v. dict_getitem d k = Returned v"
proof -
  assume "dict_contains d k"
  then have "k \<in> fst ` set d" by (simp add: dict_contains_def dict_keys_def)
  then have "map_of d k \<noteq> None" by (simp add: map_of_eq_None_iff)
  then show ?thesis by (auto simp: dict_getitem_def)
qed

subsection \<open>Which exceptions a probe can raise\<close>

lemma Popen_raises: "fst (Popen rt a w) = Raised e \<Longrightarrow> process_error e"
  by (cases "spawn rt a") (auto simp: Popen_def)

lemma check_call_raises: "fst (check_call rt cmd out err w) = Raised e \<Longrightarrow> process_error e"
  by (cases "spawn rt \<lparr>args = cmd, stdin = Inherited, stdout = out, stderr = err\<rparr>")
     (auto simp: check_call_def Popen_def wait_def split: if_splits)

lemma check_output_raises: "fst (check_output rt cmd inp w) = Raised e \<Longrightarrow> process_error e"
  by (cases "spawn rt \<lparr>args = cmd, stdin = inp, stdout = PIPE, stderr = Inherited\<rparr>")
     (auto simp: check_output_def Popen_def wait_def split: if_splits)

lemma run_cmd_raises:
  assumes "fst (run_cmd rt cmds w) = Raised e"
  shows "process_error e"
proof (cases "''|'' \<in> set cmds")
  case False
  with assms have "fst (check_call rt cmds DEVNULL DEVNULL w) = Raised e"
    by (simp add: run_cmd_def)
  then show ?thesis by (rule check_call_raises)
next
  case True
  define left where "left = \<lparr>args = take (index_of cmds ''|'') cmds, stdin = Inherited,
                      stdout = PIPE, stderr = Inherited\<rparr>"
  obtain r1 w1 where p: "Popen rt left w = (r1, w1)" by (cases "Popen rt left w")
  show ?thesis
  proof (cases r1)
    case (Returned proc)
    obtain r2 w2 where q: "check_output rt (drop (index_of cmds ''|'' + 1) cmds)
                   (StdoutOf (take (index_of cmds ''|'') cmds)) w1 = (r2, w2)"
      by (cases "check_output rt (drop (index_of cmds ''|'' + 1) cmds)
                   (StdoutOf (take (index_of cmds ''|'') cmds)) w1")
    show ?thesis
    proof (cases r2)
      case (Returned u)
      with assms True p q \<open>r1 = Returned proc\<close> show ?thesis
        by (simp add: run_cmd_def left_def [symmetric] wait_def split: option.splits)
    next
      case (Raised e')
      with assms True p q \<open>r1 = Returned proc\<close> have "e' = e"
        by (simp add: run_cmd_def left_def [symmetric])
      with q Raised have "fst (check_output rt (drop (index_of cmds ''|'' + 1) cmds)
                   (StdoutOf (take (index_of cmds ''|'') cmds)) w1) = Raised e"
        by simp
      then show ?thesis by (rule check_output_raises)
    next
      case Blocked
      with assms True p q \<open>r1 = Returned proc\<close> show ?thesis
        by (simp add: run_cmd_def left_def [symmetric])
    qed
  next
    case (Raised e')
    with assms True p have "e' = e" by (simp add: run_cmd_def left_def [symmetric])
    with p Raised have "fst (Popen rt left w) = Raised e" by simp
    then show ?thesis by (rule Popen_raises)
  next
    case Blocked
    with assms True p show ?thesis by (simp add: run_cmd_def left_def [symmetric])
  qed
qed

lemma process_error_not_aggregate: "process_error e \<Longrightarrow> \<not> aggregate_error e"
  by (cases e) simp_all

lemma not_installed_raises:
  assumes "fst (not_installed rt self k w) = Raised e"
  shows "\<not> aggregate_error e"
proof (cases "dict_contains (proxy_dict (ubuntu_todos self) w) k")
  case False
  with assms show ?thesis by (auto simp: not_installed_fst)
next
  case True
  then obtain cmds where c: "dict_getitem (proxy_dict (ubuntu_todos self) w) k = Returned cmds"
    using dict_contains_getitem by blast
  show ?thesis
  proof (cases "fst (run_cmd rt cmds w)")
    case (Returned u)
    with assms True c show ?thesis by (simp add: not_installed_fst)
  next
    case (Raised e')
    from run_cmd_raises [OF this] have pe: "process_error e'" .
    from assms True c Raised have "e' = e"
      by (cases e') (simp_all add: not_installed_fst)
    with pe show ?thesis by (simp add: process_error_not_aggregate)
  next
    case Blocked
    with assms True c show ?thesis by (simp add: not_installed_fst)
  qed
qed

text \<open>
  An aggregate error comes from the last two statements of \<open>check_dependencies\<close>
  only: both scans have returned.
\<close>

lemma check_dependencies_aggregate:
  assumes "check_dependencies rt self w = (Raised e, w')"
    and "aggregate_error e"
  shows "\<exists>found w1 missing.
     uninstalled_scan rt self (proxy_dict (ubuntu_todos self) w) w = (Returned found, w1)
     \<and> module_scan rt (python_modules self) [] w1 = (Returned missing, w')
     \<and> Raised e =
         (if found \<noteq> [] then Raised (UninstalledDependencyError_init (join '', '' found) '''')
          else if missing \<noteq> [] then Raised (MissingModuleError_init (join '', '' missing) '''')
          else Returned ())"
proof -
  obtain r1 w1 where s1: "uninstalled_scan rt self (proxy_dict (ubuntu_todos self) w) w = (r1, w1)"
    by (cases "uninstalled_scan rt self (proxy_dict (ubuntu_todos self) w) w")
  show ?thesis
  proof (cases r1)
    case (Returned found)
    note r1 = this
    obtain r2 w2 where s2: "module_scan rt (python_modules self) [] w1 = (r2, w2)"
      by (cases "module_scan rt (python_modules self) [] w1")
    show ?thesis
    proof (cases r2)
      case (Returned missing)
      with s1 s2 r1 assms(1) show ?thesis
        by (simp add: check_dependencies_def split: if_splits)
    next
      case (Raised e')
      with s1 s2 r1 assms(1) have "e' = e"
        by (simp add: check_dependencies_def)
      with module_scan_Raised [OF s2 [unfolded Raised]] assms(2) show ?thesis
        by auto
    next
      case Blocked
      with s1 s2 r1 assms(1) show ?thesis
        by (simp add: check_dependencies_def)
    qed
  next
    case (Raised e')
    with s1 assms(1) have "e' = e" by (simp add: check_dependencies_def)
    with uninstalled_scan_Raised [OF s1 [unfolded Raised]]
    obtain k where "fst (not_installed rt self k w) = Raised e" by blast
    from not_installed_raises [OF this] assms(2) show ?thesis by simp
  next
    case Blocked
    with s1 assms(1) show ?thesis by (simp add: check_dependencies_def)
  qed
qed

lemmas example_defs =
  example_runtime_def example_world_def Test_init_def proxy_dict_def dict_contains_def
  dict_keys_def dict_getitem_def not_installed_def run_cmd_def check_call_def
  check_output_def Popen_def wait_def log_def index_of_def Let_def

subsection \<open>Claims about \<open>not_installed\<close>\<close>

text \<open>
  C7. For every checklist and every component name that is not a key of it,
  \<open>not_installed\<close> raises \<open>KeyError\<close> with a message that lists the keys of the
  checklist, and the world is unchanged: no child process is started.
\<close>

theorem unknown_component_raises:
  assumes "\<not> dict_contains (proxy_dict (ubuntu_todos self) w) name"
  shows "not_installed rt self name w =
     (Raised (KeyError (''Invalid validation component: '' @ name
        @ ''. Available components to validate: dict_keys([''
        @ join '', '' (map (repr rt) (dict_keys (proxy_dict (ubuntu_todos self) w)))
        @ ''])'')), w)"
  using assms by (simp add: not_installed_def keys_str_def)

theorem unknown_component_raises_witness:
  "\<not> dict_contains (proxy_dict (ubuntu_todos (Test_init 0))
        (example_world [(''cuda'', [''nvcc'', ''--version'']), (''gcc'', [''gcc'', ''-v''])]))
        ''undefinedKey''
   \<and> not_installed example_runtime (Test_init 0) ''undefinedKey''
        (example_world [(''cuda'', [''nvcc'', ''--version'']), (''gcc'', [''gcc'', ''-v''])]) =
     (Raised (KeyError (''Invalid validation component: undefinedKey''
        @ ''. Available components to validate: dict_keys(['' @ apostrophe @ ''cuda'' @ apostrophe
        @ '', '' @ apostrophe @ ''gcc'' @ apostrophe @ ''])'')),
      example_world [(''cuda'', [''nvcc'', ''--version'']), (''gcc'', [''gcc'', ''-v''])])"
proof -
  have h: "\<not> dict_contains (proxy_dict (ubuntu_todos (Test_init 0))
        (example_world [(''cuda'', [''nvcc'', ''--version'']), (''gcc'', [''gcc'', ''-v''])]))
        ''undefinedKey''"
    by (simp add: example_defs)
  show ?thesis
    using h unknown_component_raises [OF h, of example_runtime]
    by (simp add: example_defs apostrophe_def)
qed

text \<open>
  C6. In the branch without a pipe, a probe command whose executable exists and that
  exits with a non-zero status makes \<open>not_installed\<close> raise \<open>CalledProcessError\<close>:
  the error is not turned into the boolean.
\<close>

theorem nonzero_exit_propagates:
  assumes "dict_getitem (proxy_dict (ubuntu_todos self) w) k = Returned cmds"
    and "''|'' \<notin> set cmds"
    and "spawn rt \<lparr>args = cmds, stdin = Inherited, stdout = DEVNULL, stderr = DEVNULL\<rparr> = Exits c"
    and "c \<noteq> 0"
  shows "fst (not_installed rt self k w) = Raised (CalledProcessError c cmds)"
proof -
  have "dict_contains (proxy_dict (ubuntu_todos self) w) k"
    using assms(1) by (rule dict_getitem_contains)
  moreover have "fst (run_cmd rt cmds w) = Raised (CalledProcessError c cmds)"
    using assms(2-4) by (simp add: run_cmd_def check_call_def Popen_def wait_def)
  ultimately show ?thesis
    using assms(1) by (simp add: not_installed_fst)
qed

theorem nonzero_exit_propagates_witness:
  "dict_getitem (proxy_dict (ubuntu_todos (Test_init 0)) (example_world [(''gcc'', [''false''])])) ''gcc''
     = Returned [''false'']
   \<and> ''|'' \<notin> set [''false'']
   \<and> spawn example_runtime \<lparr>args = [''false''], stdin = Inherited, stdout = DEVNULL, stderr = DEVNULL\<rparr>
       = Exits 1
   \<and> fst (not_installed example_runtime (Test_init 0) ''gcc'' (example_world [(''gcc'', [''false''])]))
       = Raised (CalledProcessError 1 [''false''])"
proof -
  have h1: "dict_getitem (proxy_dict (ubuntu_todos (Test_init 0)) (example_world [(''gcc'', [''false''])])) ''gcc''
     = Returned [''false'']"
    by (simp add: example_defs)
  have h2: "''|'' \<notin> set [''false'']" by simp
  have h3: "spawn example_runtime \<lparr>args = [''false''], stdin = Inherited, stdout = DEVNULL, stderr = DEVNULL\<rparr>
       = Exits 1"
    by (simp add: example_runtime_def)
  have h4: "(1::int) \<noteq> 0" by simp
  from nonzero_exit_propagates [OF h1 h2 h3 h4] h1 h2 h3 show ?thesis by simp
qed

subsection \<open>The result of \<open>run_cmd\<close> from the outcomes of its children\<close>

lemma run_cmd_single:
  "''|'' \<notin> set cmds \<Longrightarrow>
     fst (run_cmd rt cmds w) =
       (case spawn rt (single_stage cmds) of
          NotFound \<Rightarrow> Raised FileNotFoundError
        | StartFails m \<Rightarrow> Raised (OSError m)
        | Exits c \<Rightarrow> if c \<noteq> 0 then Raised (CalledProcessError c cmds) else Returned ()
        | NeverExits \<Rightarrow> Blocked)"
  by (simp add: run_cmd_def check_call_def Popen_def wait_def single_stage_def
      split: outcome.splits)

lemma run_cmd_piped_left_fails:
  "''|'' \<in> set cmds \<Longrightarrow> spawn rt (left_stage cmds) = NotFound \<Longrightarrow>
     fst (run_cmd rt cmds w) = Raised FileNotFoundError"
  by (simp add: run_cmd_def Popen_def left_stage_def Let_def)

lemma run_cmd_piped_right_exits:
  "''|'' \<in> set cmds \<Longrightarrow> spawn rt (left_stage cmds) = Exits c1 \<Longrightarrow>
   spawn rt (right_stage cmds) = Exits c2 \<Longrightarrow>
     fst (run_cmd rt cmds w) =
       (if c2 \<noteq> 0 then Raised (CalledProcessError c2 (drop (index_of cmds ''|'' + 1) cmds))
        else Returned ())"
  by (simp add: run_cmd_def check_output_def Popen_def wait_def left_stage_def right_stage_def Let_def)

lemma run_cmd_piped_right_missing:
  "''|'' \<in> set cmds \<Longrightarrow> spawn rt (left_stage cmds) = Exits c1 \<Longrightarrow>
   spawn rt (right_stage cmds) = NotFound \<Longrightarrow>
     fst (run_cmd rt cmds w) = Raised FileNotFoundError"
  by (simp add: run_cmd_def check_output_def Popen_def wait_def left_stage_def right_stage_def Let_def)

text \<open>
  C1, as amended. For every component of the checklist, \<open>not_installed\<close> returns
  true exactly when running the probe command raised \<open>FileNotFoundError\<close>, and returns
  false exactly when \<open>run_cmd\<close> returned: without a pipe when the command exited with
  status 0, and with a pipe when the right stage exited with status 0, whatever the
  status of the left stage. A non-zero status of the right stage raises
  \<open>CalledProcessError\<close> out of \<open>not_installed\<close>.
\<close>

theorem not_installed_result:
  assumes "dict_getitem (proxy_dict (ubuntu_todos self) w) k = Returned cmds"
  shows "((fst (not_installed rt self k w) = Returned True)
            = (fst (run_cmd rt cmds w) = Raised FileNotFoundError))
       \<and> ((fst (not_installed rt self k w) = Returned False)
            = (fst (run_cmd rt cmds w) = Returned ()))
       \<and> (''|'' \<notin> set cmds \<and> spawn rt (single_stage cmds) = Exits 0
            \<longrightarrow> fst (not_installed rt self k w) = Returned False)
       \<and> (''|'' \<in> set cmds \<and> spawn rt (left_stage cmds) = Exits c1
            \<and> spawn rt (right_stage cmds) = Exits 0
            \<longrightarrow> fst (not_installed rt self k w) = Returned False)
       \<and> (''|'' \<in> set cmds \<and> spawn rt (left_stage cmds) = Exits c1
            \<and> spawn rt (right_stage cmds) = Exits c2 \<and> c2 \<noteq> 0
            \<longrightarrow> fst (not_installed rt self k w)
                  = Raised (CalledProcessError c2 (drop (index_of cmds ''|'' + 1) cmds)))"
proof -
  have inside: "dict_contains (proxy_dict (ubuntu_todos self) w) k"
    using assms by (rule dict_getitem_contains)
  have shape: "fst (not_installed rt self k w) =
      (case fst (run_cmd rt cmds w) of
         Raised FileNotFoundError \<Rightarrow> Returned True
       | Raised e \<Rightarrow> Raised e
       | Blocked \<Rightarrow> Blocked
       | Returned _ \<Rightarrow> Returned False)"
    using assms inside by (simp add: not_installed_fst)
  have a: "(fst (not_installed rt self k w) = Returned True)
            = (fst (run_cmd rt cmds w) = Raised FileNotFoundError)"
    unfolding shape by (simp split: result.splits exn.splits)
  have b: "(fst (not_installed rt self k w) = Returned False)
            = (fst (run_cmd rt cmds w) = Returned ())"
    unfolding shape by (simp split: result.splits exn.splits)
  have c: "''|'' \<notin> set cmds \<and> spawn rt (single_stage cmds) = Exits 0
            \<longrightarrow> fst (not_installed rt self k w) = Returned False"
    unfolding b by (simp add: run_cmd_single)
  have d: "''|'' \<in> set cmds \<and> spawn rt (left_stage cmds) = Exits c1
            \<and> spawn rt (right_stage cmds) = Exits 0
            \<longrightarrow> fst (not_installed rt self k w) = Returned False"
    unfolding b by (simp add: run_cmd_piped_right_exits)
  have e: "''|'' \<in> set cmds \<and> spawn rt (left_stage cmds) = Exits c1
            \<and> spawn rt (right_stage cmds) = Exits c2 \<and> c2 \<noteq> 0
            \<longrightarrow> fst (not_installed rt self k w)
                  = Raised (CalledProcessError c2 (drop (index_of cmds ''|'' + 1) cmds))"
    unfolding shape by (simp add: run_cmd_piped_right_exits)
  from a b c d e show ?thesis by blast
qed

lemmas stage_defs = left_stage_def right_stage_def single_stage_def

theorem not_installed_result_witness:
  "dict_getitem (proxy_dict (ubuntu_todos (Test_init 0))
       (example_world [(''cudnn'', [''false'', ''|'', ''cat''])])) ''cudnn''
     = Returned [''false'', ''|'', ''cat'']
   \<and> spawn example_runtime (left_stage [''false'', ''|'', ''cat'']) = Exits 1
   \<and> spawn example_runtime (right_stage [''false'', ''|'', ''cat'']) = Exits 0
   \<and> fst (not_installed example_runtime (Test_init 0) ''cudnn''
       (example_world [(''cudnn'', [''false'', ''|'', ''cat''])])) = Returned False"
proof -
  have h: "dict_getitem (proxy_dict (ubuntu_todos (Test_init 0))
       (example_world [(''cudnn'', [''false'', ''|'', ''cat''])])) ''cudnn''
     = Returned [''false'', ''|'', ''cat'']"
    by (simp add: example_defs)
  have l: "spawn example_runtime (left_stage [''false'', ''|'', ''cat'']) = Exits 1"
    by (simp add: example_runtime_def stage_defs index_of_def)
  have r: "spawn example_runtime (right_stage [''false'', ''|'', ''cat'']) = Exits 0"
    by (simp add: example_runtime_def stage_defs index_of_def)
  from not_installed_result [OF h, of example_runtime 1 0] h l r show ?thesis
    by simp
qed

text \<open>
  The claim as written fails: both stages of \<open>true | false\<close> run to completion, the
  right one exits with status 1, and \<open>not_installed\<close> raises instead of returning false.
\<close>

theorem piped_right_stage_status_counterexample:
  "spawn example_runtime (left_stage [''true'', ''|'', ''false'']) = Exits 0
   \<and> spawn example_runtime (right_stage [''true'', ''|'', ''false'']) = Exits 1
   \<and> fst (not_installed example_runtime (Test_init 0) ''cudnn''
        (example_world [(''cudnn'', [''true'', ''|'', ''false''])]))
       = Raised (CalledProcessError 1 [''false''])
   \<and> trace (snd (not_installed example_runtime (Test_init 0) ''cudnn''
        (example_world [(''cudnn'', [''true'', ''|'', ''false''])])))
       = [Spawned 0 (left_stage [''true'', ''|'', ''false'']),
          Spawned 1 (right_stage [''true'', ''|'', ''false'']),
          Waited 1]"
  by (simp add: example_defs stage_defs)

subsection \<open>Claims about \<open>check_dependencies\<close>\<close>

lemma uninstalled_scan_completes:
  assumes "\<forall>k \<in> set (dict_keys d). \<exists>b. fst (not_installed rt self k w) = Returned b"
  shows "uninstalled_scan rt self d w =
     (Returned (filter (\<lambda>k. fst (not_installed rt self k w) = Returned True) (dict_keys d)),
      probe_all rt self (dict_keys d) w)"
proof -
  from assms have "\<forall>k \<in> set (map fst d). \<exists>b. fst (not_installed rt self k w) = Returned b"
    by (simp add: dict_keys_def)
  from uninstalled_scan_total [OF this]
  obtain found w1 where s: "uninstalled_scan rt self d w = (Returned found, w1)" by blast
  from uninstalled_scan_Returned [OF s] s show ?thesis
    by (simp add: dict_keys_def)
qed

lemma check_dependencies_scanned:
  assumes "uninstalled_scan rt self (proxy_dict (ubuntu_todos self) w) w = (Returned found, w1)"
    and "module_scan rt (python_modules self) [] w1 = (Returned missing, w2)"
  shows "check_dependencies rt self w =
     (if found \<noteq> [] then Raised (UninstalledDependencyError_init (join '', '' found) '''')
      else if missing \<noteq> [] then Raised (MissingModuleError_init (join '', '' missing) '''')
      else Returned (), w2)"
  using assms by (simp add: check_dependencies_def)

lemma check_dependencies_import_crash:
  assumes "uninstalled_scan rt self (proxy_dict (ubuntu_todos self) w) w = (Returned found, w1)"
    and "module_scan rt (python_modules self) [] w1 = (Raised e, w2)"
  shows "check_dependencies rt self w = (Raised e, w2)"
  using assms by (simp add: check_dependencies_def)

text \<open>
  C5. When \<open>check_dependencies\<close> raises an aggregate error, every component of the
  checklist has been probed and every module imported: each probe returned a boolean,
  and the world is the one reached by probing all components in checklist order and then
  importing all modules, so nothing was cut short at the first failure. The message of
  \<open>UninstalledDependencyError\<close> is the names of the components whose probe returned
  true, in checklist order, joined by a comma and a space (followed by the fixed text
  of the exception class).
\<close>

theorem aggregate_error_after_full_scan:
  assumes "check_dependencies rt self w = (Raised e, w')"
    and "aggregate_error e"
  shows "(\<forall>k \<in> set (dict_keys (proxy_dict (ubuntu_todos self) w)).
            \<exists>b. fst (not_installed rt self k w) = Returned b)
       \<and> w' = import_all rt (python_modules self)
                 (probe_all rt self (dict_keys (proxy_dict (ubuntu_todos self) w)) w)
       \<and> (\<forall>msg. e = UninstalledDependencyError msg \<longrightarrow>
             filter (\<lambda>k. fst (not_installed rt self k w) = Returned True)
               (dict_keys (proxy_dict (ubuntu_todos self) w)) \<noteq> []
             \<and> msg = join '', '' (filter (\<lambda>k. fst (not_installed rt self k w) = Returned True)
                        (dict_keys (proxy_dict (ubuntu_todos self) w)))
                     @ '' not installed ... '')
       \<and> (\<forall>msg. e = MissingModuleError msg \<longrightarrow>
             msg = ''python module(s) - '' @ apostrophe
                     @ join '', '' (filter (import_error rt) (python_modules self))
                     @ apostrophe @ '' cannot be found ... '')"
proof -
  let ?d = "proxy_dict (ubuntu_todos self) w"
  let ?hit = "filter (\<lambda>k. fst (not_installed rt self k w) = Returned True) (dict_keys ?d)"
  let ?miss = "filter (import_error rt) (python_modules self)"
  from check_dependencies_aggregate [OF assms]
  obtain found w1 missing where
    s1: "uninstalled_scan rt self ?d w = (Returned found, w1)"
    and s2: "module_scan rt (python_modules self) [] w1 = (Returned missing, w')"
    and r: "Raised e =
         (if found \<noteq> [] then Raised (UninstalledDependencyError_init (join '', '' found) '''')
          else if missing \<noteq> [] then Raised (MissingModuleError_init (join '', '' missing) '''')
          else Returned ())"
    by blast
  from uninstalled_scan_Returned [OF s1]
  have found: "found = ?hit"
    and all: "\<forall>k \<in> set (dict_keys ?d). \<exists>b. fst (not_installed rt self k w) = Returned b"
    and w1: "w1 = probe_all rt self (dict_keys ?d) w"
    by (simp_all add: dict_keys_def)
  from module_scan_Returned [OF s2]
  have missing: "missing = ?miss" and w': "w' = import_all rt (python_modules self) w1"
    by simp_all
  have u: "\<forall>msg. e = UninstalledDependencyError msg \<longrightarrow>
             ?hit \<noteq> [] \<and> msg = join '', '' ?hit @ '' not installed ... ''"
    using r found
    by (auto simp: UninstalledDependencyError_init_def MissingModuleError_init_def
        split: if_splits)
  have m: "\<forall>msg. e = MissingModuleError msg \<longrightarrow>
             msg = ''python module(s) - '' @ apostrophe @ join '', '' ?miss
                     @ apostrophe @ '' cannot be found ... ''"
    using r missing
    by (auto simp: UninstalledDependencyError_init_def MissingModuleError_init_def
        split: if_splits)
  from all w1 w' u m show ?thesis by blast
qed

lemmas scan_defs =
  check_dependencies_def import_module_def probe_all_def import_all_def
  UninstalledDependencyError_init_def MissingModuleError_init_def import_error_def
  import_crashes_def

theorem aggregate_error_after_full_scan_witness:
  "fst (check_dependencies example_runtime (Test_init 0)
      (example_world [(''cuda'', [''absent'']), (''gcc'', [''gcc'', ''-v'']),
                      (''cudnn'', [''absent'', ''|'', ''grep'', ''CUDNN''])]))
     = Raised (UninstalledDependencyError ''cuda, cudnn not installed ... '')
   \<and> aggregate_error (UninstalledDependencyError ''cuda, cudnn not installed ... '')
   \<and> snd (check_dependencies example_runtime (Test_init 0)
      (example_world [(''cuda'', [''absent'']), (''gcc'', [''gcc'', ''-v'']),
                      (''cudnn'', [''absent'', ''|'', ''grep'', ''CUDNN''])]))
     = import_all example_runtime []
         (probe_all example_runtime (Test_init 0) [''cuda'', ''gcc'', ''cudnn'']
            (example_world [(''cuda'', [''absent'']), (''gcc'', [''gcc'', ''-v'']),
                      (''cudnn'', [''absent'', ''|'', ''grep'', ''CUDNN''])]))
   \<and> trace (snd (check_dependencies example_runtime (Test_init 0)
      (example_world [(''cuda'', [''absent'']), (''gcc'', [''gcc'', ''-v'']),
                      (''cudnn'', [''absent'', ''|'', ''grep'', ''CUDNN''])])))
     = [StartFailed (single_stage [''absent'']),
        Spawned 0 (single_stage [''gcc'', ''-v'']),
        Waited 0,
        StartFailed (left_stage [''absent'', ''|'', ''grep'', ''CUDNN''])]"
proof -
  let ?w = "example_world [(''cuda'', [''absent'']), (''gcc'', [''gcc'', ''-v'']),
                      (''cudnn'', [''absent'', ''|'', ''grep'', ''CUDNN''])]"
  have r: "fst (check_dependencies example_runtime (Test_init 0) ?w)
     = Raised (UninstalledDependencyError ''cuda, cudnn not installed ... '')"
    by (simp add: example_defs scan_defs)
  then have h: "check_dependencies example_runtime (Test_init 0) ?w
     = (Raised (UninstalledDependencyError ''cuda, cudnn not installed ... ''),
        snd (check_dependencies example_runtime (Test_init 0) ?w))"
    by (cases "check_dependencies example_runtime (Test_init 0) ?w") simp
  have a: "aggregate_error (UninstalledDependencyError ''cuda, cudnn not installed ... '')"
    by simp
  have k: "dict_keys (proxy_dict (ubuntu_todos (Test_init 0)) ?w) = [''cuda'', ''gcc'', ''cudnn'']"
    by (simp add: example_defs)
  have m: "python_modules (Test_init 0) = []"
    by (simp add: Test_init_def)
  have t: "trace (snd (check_dependencies example_runtime (Test_init 0) ?w))
     = [StartFailed (single_stage [''absent'']),
        Spawned 0 (single_stage [''gcc'', ''-v'']),
        Waited 0,
        StartFailed (left_stage [''absent'', ''|'', ''grep'', ''CUDNN''])]"
    by (simp add: example_defs scan_defs stage_defs)
  from aggregate_error_after_full_scan [OF h a] r a t show ?thesis
    by (simp only: k m)
qed

text \<open>
  C4, as amended. One call of \<open>check_dependencies\<close> has one result, so it never
  raises both aggregate errors. \<open>MissingModuleError\<close> is raised only when every probe
  returned false and the import of some module raised an \<open>ImportError\<close>. When some probe
  returned true and the scan completes (every probe returns, and no import raises an
  exception other than \<open>ImportError\<close>), \<open>UninstalledDependencyError\<close> is raised;
  and whenever some probe returned true, \<open>MissingModuleError\<close> is not raised.
\<close>

theorem aggregate_errors_exclusive:
  "(fst (check_dependencies rt self w) = Raised (MissingModuleError msg) \<longrightarrow>
       (\<forall>k \<in> set (dict_keys (proxy_dict (ubuntu_todos self) w)).
          fst (not_installed rt self k w) = Returned False)
     \<and> (\<exists>m \<in> set (python_modules self). import_error rt m))
   \<and> ((\<exists>k \<in> set (dict_keys (proxy_dict (ubuntu_todos self) w)).
          fst (not_installed rt self k w) = Returned True)
      \<and> (\<forall>k \<in> set (dict_keys (proxy_dict (ubuntu_todos self) w)).
          \<exists>b. fst (not_installed rt self k w) = Returned b)
      \<and> (\<forall>m \<in> set (python_modules self). \<not> import_crashes rt m)
      \<longrightarrow> fst (check_dependencies rt self w) =
            Raised (UninstalledDependencyError_init
              (join '', '' (filter (\<lambda>k. fst (not_installed rt self k w) = Returned True)
                 (dict_keys (proxy_dict (ubuntu_todos self) w)))) ''''))
   \<and> ((\<exists>k \<in> set (dict_keys (proxy_dict (ubuntu_todos self) w)).
          fst (not_installed rt self k w) = Returned True)
      \<longrightarrow> fst (check_dependencies rt self w) \<noteq> Raised (MissingModuleError msg))"
proof -
  let ?ks = "dict_keys (proxy_dict (ubuntu_todos self) w)"
  let ?hit = "filter (\<lambda>k. fst (not_installed rt self k w) = Returned True) ?ks"
  have first: "(\<forall>k \<in> set ?ks. fst (not_installed rt self k w) = Returned False)
       \<and> (\<exists>m \<in> set (python_modules self). import_error rt m)"
    if a: "fst (check_dependencies rt self w) = Raised (MissingModuleError msg)"
  proof -
    from a have h: "check_dependencies rt self w
        = (Raised (MissingModuleError msg), snd (check_dependencies rt self w))"
      by (cases "check_dependencies rt self w") simp
    have g: "aggregate_error (MissingModuleError msg)" by simp
    from check_dependencies_aggregate [OF h g]
    obtain found w1 missing where
      s1: "uninstalled_scan rt self (proxy_dict (ubuntu_todos self) w) w = (Returned found, w1)"
      and s2: "module_scan rt (python_modules self) [] w1
                 = (Returned missing, snd (check_dependencies rt self w))"
      and r: "Raised (MissingModuleError msg) =
         (if found \<noteq> [] then Raised (UninstalledDependencyError_init (join '', '' found) '''')
          else if missing \<noteq> [] then Raised (MissingModuleError_init (join '', '' missing) '''')
          else Returned ())"
      by blast
    from r have e: "found = []" and ne: "missing \<noteq> []"
      by (auto simp: UninstalledDependencyError_init_def split: if_splits)
    from uninstalled_scan_Returned [OF s1] e
    have none: "?hit = []"
      and all: "\<forall>k \<in> set ?ks. \<exists>b. fst (not_installed rt self k w) = Returned b"
      by (simp_all add: dict_keys_def)
    have "\<forall>k \<in> set ?ks. fst (not_installed rt self k w) = Returned False"
    proof
      fix k assume k: "k \<in> set ?ks"
      with all obtain b where b: "fst (not_installed rt self k w) = Returned b" by blast
      from none k have "fst (not_installed rt self k w) \<noteq> Returned True"
        by (auto simp: filter_empty_conv)
      with b show "fst (not_installed rt self k w) = Returned False" by (cases b) simp_all
    qed
    moreover from module_scan_Returned [OF s2] ne
    have "filter (import_error rt) (python_modules self) \<noteq> []" by simp
    then have "\<exists>m \<in> set (python_modules self). import_error rt m"
      by (auto simp: filter_empty_conv)
    ultimately show ?thesis by blast
  qed
  have second: "fst (check_dependencies rt self w) =
            Raised (UninstalledDependencyError_init (join '', '' ?hit) '''')"
    if some: "\<exists>k \<in> set ?ks. fst (not_installed rt self k w) = Returned True"
      and all: "\<forall>k \<in> set ?ks. \<exists>b. fst (not_installed rt self k w) = Returned b"
      and mods: "\<forall>m \<in> set (python_modules self). \<not> import_crashes rt m"
  proof -
    from some have ne: "?hit \<noteq> []" by (auto simp: filter_empty_conv)
    from uninstalled_scan_completes [OF all]
    have s1: "uninstalled_scan rt self (proxy_dict (ubuntu_todos self) w) w
        = (Returned ?hit, probe_all rt self ?ks w)" .
    from module_scan_no_crash [OF mods]
    have s2: "module_scan rt (python_modules self) [] (probe_all rt self ?ks w)
        = (Returned ([] @ filter (import_error rt) (python_modules self)),
           import_all rt (python_modules self) (probe_all rt self ?ks w))" .
    from check_dependencies_scanned [OF s1 s2] ne show ?thesis by simp
  qed
  have third: "fst (check_dependencies rt self w) \<noteq> Raised (MissingModuleError msg)"
    if some: "\<exists>k \<in> set ?ks. fst (not_installed rt self k w) = Returned True"
    using first some by auto
  from first second third show ?thesis by blast
qed

theorem aggregate_errors_exclusive_witness:
  "fst (not_installed example_runtime
          ((Test_init 0)\<lparr>python_modules := [''nonexistent_mod_xyz'']\<rparr>) ''cuda''
          (example_world [(''cuda'', [''absent'']), (''gcc'', [''gcc'', ''-v''])]))
     = Returned True
   \<and> import_error example_runtime ''nonexistent_mod_xyz''
   \<and> fst (check_dependencies example_runtime
          ((Test_init 0)\<lparr>python_modules := [''nonexistent_mod_xyz'']\<rparr>)
          (example_world [(''cuda'', [''absent'']), (''gcc'', [''gcc'', ''-v''])]))
     = Raised (UninstalledDependencyError ''cuda not installed ... '')"
proof -
  let ?t = "(Test_init 0)\<lparr>python_modules := [''nonexistent_mod_xyz'']\<rparr>"
  let ?w = "example_world [(''cuda'', [''absent'']), (''gcc'', [''gcc'', ''-v''])]"
  have k: "dict_keys (proxy_dict (ubuntu_todos ?t) ?w) = [''cuda'', ''gcc'']"
    by (simp add: example_defs)
  have cuda: "fst (not_installed example_runtime ?t ''cuda'' ?w) = Returned True"
    by (simp add: example_defs)
  have gcc: "fst (not_installed example_runtime ?t ''gcc'' ?w) = Returned False"
    by (simp add: example_defs)
  have m: "import_error example_runtime ''nonexistent_mod_xyz''"
    "\<not> import_crashes example_runtime ''nonexistent_mod_xyz''"
    by (simp_all add: import_error_def import_crashes_def example_runtime_def)
  have mods: "python_modules ?t = [''nonexistent_mod_xyz'']" by simp
  have h1: "\<exists>k \<in> set [''cuda'', ''gcc'']. fst (not_installed example_runtime ?t k ?w) = Returned True"
    using cuda by simp
  have h2: "\<forall>k \<in> set [''cuda'', ''gcc'']. \<exists>b. fst (not_installed example_runtime ?t k ?w) = Returned b"
    using cuda gcc by auto
  have h3: "\<forall>m \<in> set [''nonexistent_mod_xyz'']. \<not> import_crashes example_runtime m"
    using m by simp
  have hit: "filter (\<lambda>k. fst (not_installed example_runtime ?t k ?w) = Returned True)
                 [''cuda'', ''gcc''] = [''cuda'']"
    using cuda gcc by simp
  from aggregate_errors_exclusive [of example_runtime ?t ?w "[]", unfolded k mods] h1 h2 h3
  have "fst (check_dependencies example_runtime ?t ?w) =
            Raised (UninstalledDependencyError_init
              (join '', '' (filter (\<lambda>k. fst (not_installed example_runtime ?t k ?w) = Returned True)
                 [''cuda'', ''gcc''])) '''')"
    by blast
  then have "fst (check_dependencies example_runtime ?t ?w) =
            Raised (UninstalledDependencyError_init ''cuda'' '''')"
    by (simp only: hit join.simps)
  with cuda gcc m show ?thesis
    by (simp add: UninstalledDependencyError_init_def)
qed

text \<open>
  The claim as written fails: the probe of \<open>cuda\<close> reports not-installed, the probe of
  \<open>gcc\<close> exits with status 1, and \<open>check_dependencies\<close> raises
  \<open>CalledProcessError\<close>, not \<open>UninstalledDependencyError\<close>.
\<close>

theorem later_probe_error_counterexample:
  "fst (not_installed example_runtime (Test_init 0) ''cuda''
          (example_world [(''cuda'', [''absent'']), (''gcc'', [''false''])]))
     = Returned True
   \<and> fst (check_dependencies example_runtime (Test_init 0)
          (example_world [(''cuda'', [''absent'']), (''gcc'', [''false''])]))
     = Raised (CalledProcessError 1 [''false''])"
  by (simp add: example_defs scan_defs)

text \<open>
  C8, as amended. In the module check of \<open>check_dependencies\<close>, every \<open>ImportError\<close>
  is caught and the module collected: a module that is not found, and also a module
  whose import raises another \<open>ImportError\<close>. An exception that is not an
  \<open>ImportError\<close> propagates unmodified out of \<open>check_dependencies\<close> (all probes
  having returned). When every probe returned false and no import raises such an
  exception, the collected modules are reported by \<open>MissingModuleError\<close>.
\<close>

theorem import_errors_collected_others_propagate:
  "((\<forall>k \<in> set (dict_keys (proxy_dict (ubuntu_todos self) w)).
        \<exists>b. fst (not_installed rt self k w) = Returned b)
      \<and> python_modules self = pre @ m # post
      \<and> (\<forall>x \<in> set pre. \<not> import_crashes rt x)
      \<and> find_module rt m = ImportCrashes s
      \<longrightarrow> fst (check_dependencies rt self w) = Raised (OtherException s))
   \<and> ((\<forall>k \<in> set (dict_keys (proxy_dict (ubuntu_todos self) w)).
        fst (not_installed rt self k w) = Returned False)
      \<and> (\<forall>x \<in> set (python_modules self). \<not> import_crashes rt x)
      \<longrightarrow> fst (check_dependencies rt self w) =
           (if filter (import_error rt) (python_modules self) = [] then Returned ()
            else Raised (MissingModuleError_init
                   (join '', '' (filter (import_error rt) (python_modules self))) '''')))"
proof -
  let ?ks = "dict_keys (proxy_dict (ubuntu_todos self) w)"
  let ?hit = "filter (\<lambda>k. fst (not_installed rt self k w) = Returned True) ?ks"
  have crash: "fst (check_dependencies rt self w) = Raised (OtherException s)"
    if all: "\<forall>k \<in> set ?ks. \<exists>b. fst (not_installed rt self k w) = Returned b"
      and mods: "python_modules self = pre @ m # post"
      and pre: "\<forall>x \<in> set pre. \<not> import_crashes rt x"
      and m: "find_module rt m = ImportCrashes s"
  proof -
    from uninstalled_scan_completes [OF all]
    have s1: "uninstalled_scan rt self (proxy_dict (ubuntu_todos self) w) w
        = (Returned ?hit, probe_all rt self ?ks w)" .
    from module_scan_crash [OF pre m]
    have s2: "module_scan rt (python_modules self) [] (probe_all rt self ?ks w)
        = (Raised (OtherException s), log (Import m) (import_all rt pre (probe_all rt self ?ks w)))"
      by (simp add: mods)
    from check_dependencies_import_crash [OF s1 s2] show ?thesis by simp
  qed
  have collect: "fst (check_dependencies rt self w) =
           (if filter (import_error rt) (python_modules self) = [] then Returned ()
            else Raised (MissingModuleError_init
                   (join '', '' (filter (import_error rt) (python_modules self))) ''''))"
    if none: "\<forall>k \<in> set ?ks. fst (not_installed rt self k w) = Returned False"
      and mods: "\<forall>x \<in> set (python_modules self). \<not> import_crashes rt x"
  proof -
    from none have all: "\<forall>k \<in> set ?ks. \<exists>b. fst (not_installed rt self k w) = Returned b"
      by blast
    from none have e: "?hit = []" by (simp add: filter_empty_conv)
    from uninstalled_scan_completes [OF all]
    have s1: "uninstalled_scan rt self (proxy_dict (ubuntu_todos self) w) w
        = (Returned ?hit, probe_all rt self ?ks w)" .
    from module_scan_no_crash [OF mods]
    have s2: "module_scan rt (python_modules self) [] (probe_all rt self ?ks w)
        = (Returned ([] @ filter (import_error rt) (python_modules self)),
           import_all rt (python_modules self) (probe_all rt self ?ks w))" .
    from check_dependencies_scanned [OF s1 s2] e show ?thesis by simp
  qed
  from crash collect show ?thesis by blast
qed

theorem import_errors_collected_others_propagate_witness:
  "find_module example_runtime ''crashing'' = ImportCrashes ''RuntimeError''
   \<and> fst (check_dependencies example_runtime
          ((Test_init 0)\<lparr>python_modules := [''nonexistent_mod_xyz'', ''crashing'', ''numpy'']\<rparr>)
          (example_world [(''gcc'', [''gcc'', ''-v''])]))
     = Raised (OtherException ''RuntimeError'')"
proof -
  let ?t = "(Test_init 0)\<lparr>python_modules := [''nonexistent_mod_xyz'', ''crashing'', ''numpy'']\<rparr>"
  let ?w = "example_world [(''gcc'', [''gcc'', ''-v''])]"
  have k: "dict_keys (proxy_dict (ubuntu_todos ?t) ?w) = [''gcc'']"
    by (simp add: example_defs)
  have gcc: "fst (not_installed example_runtime ?t ''gcc'' ?w) = Returned False"
    by (simp add: example_defs)
  have mods: "python_modules ?t = [''nonexistent_mod_xyz''] @ ''crashing'' # [''numpy'']"
    by simp
  have pre: "\<not> import_crashes example_runtime ''nonexistent_mod_xyz''"
    by (simp add: import_crashes_def example_runtime_def)
  have c: "find_module example_runtime ''crashing'' = ImportCrashes ''RuntimeError''"
    by (simp add: example_runtime_def)
  have h1: "\<forall>k \<in> set [''gcc'']. \<exists>b. fst (not_installed example_runtime ?t k ?w) = Returned b"
    using gcc by auto
  have h2: "\<forall>x \<in> set [''nonexistent_mod_xyz'']. \<not> import_crashes example_runtime x"
    using pre by simp
  from import_errors_collected_others_propagate
         [of ?t ?w example_runtime "[''nonexistent_mod_xyz'']" "''crashing''" "[''numpy'']"
             "''RuntimeError''", unfolded k] h1 h2 mods c
  have "fst (check_dependencies example_runtime ?t ?w) = Raised (OtherException ''RuntimeError'')"
    by blast
  with c show ?thesis by simp
qed

text \<open>
  The claim as written fails: the module \<open>broken_ext\<close> is found, its import raises an
  \<open>ImportError\<close> that is not a module-not-found condition, and the error is caught and
  the module reported as missing instead of the error propagating.
\<close>

theorem other_import_error_counterexample:
  "fst (import_module example_runtime ''broken_ext'' (example_world []))
     = Raised (ImportError ''cannot open shared object file'')
   \<and> fst (check_dependencies example_runtime
          ((Test_init 0)\<lparr>python_modules := [''broken_ext'']\<rparr>) (example_world []))
     = Raised (MissingModuleError_init ''broken_ext'' '''')"
  by (simp add: example_defs scan_defs)

text \<open>
  C10. A freshly constructed checker has the empty module list, and
  \<open>check_dependencies\<close> on it never raises \<open>MissingModuleError\<close>. No method of
  the class assigns \<open>python_modules\<close>: in the model no method returns a changed
  object.
\<close>

theorem fresh_checker_never_MissingModuleError:
  "python_modules (Test_init ubuntu_commands) = []
   \<and> fst (check_dependencies rt (Test_init ubuntu_commands) w) \<noteq> Raised (MissingModuleError msg)"
proof -
  have mods: "python_modules (Test_init ubuntu_commands) = []"
    by (simp add: Test_init_def)
  have "fst (check_dependencies rt (Test_init ubuntu_commands) w) \<noteq> Raised (MissingModuleError msg)"
  proof
    assume a: "fst (check_dependencies rt (Test_init ubuntu_commands) w) = Raised (MissingModuleError msg)"
    then have "check_dependencies rt (Test_init ubuntu_commands) w
                 = (Raised (MissingModuleError msg), snd (check_dependencies rt (Test_init ubuntu_commands) w))"
      by (cases "check_dependencies rt (Test_init ubuntu_commands) w") simp
    from check_dependencies_aggregate [OF this]
    obtain found w1 missing where
      m: "module_scan rt (python_modules (Test_init ubuntu_commands)) [] w1
            = (Returned missing, snd (check_dependencies rt (Test_init ubuntu_commands) w))"
      and r: "Raised (MissingModuleError msg) =
         (if found \<noteq> [] then Raised (UninstalledDependencyError_init (join '', '' found) '''')
          else if missing \<noteq> [] then Raised (MissingModuleError_init (join '', '' missing) '''')
          else Returned ())"
      by auto
    from m mods have "missing = []" by simp
    with r show False
      by (simp add: UninstalledDependencyError_init_def split: if_splits)
  qed
  with mods show ?thesis by simp
qed

subsection \<open>Claims the code does not meet\<close>

text \<open>
  C2. The checklist is meant to be frozen at construction. The code wraps the caller's
  dictionary in a read-only view without copying it: a write through the view is
  rejected, but a write to the caller's own dictionary after construction is seen by
  the next probe. Here the caller adds the entry \<open>evil\<close> after construction;
  before, \<open>evil\<close> was not a component, afterwards \<open>not_installed\<close> runs its command.
\<close>

theorem checklist_follows_callers_dictionary:
  "\<not> dict_contains (proxy_dict (ubuntu_todos (Test_init 0))
        (example_world [(''cuda'', [''nvcc'', ''--version''])])) ''evil''
   \<and> fst (proxy_setitem (ubuntu_todos (Test_init 0)) ''evil'' [''rm'', ''-rf'', ''data'']
        (example_world [(''cuda'', [''nvcc'', ''--version''])]))
       = Raised (TypeError ''mappingproxy object does not support item assignment'')
   \<and> proxy_dict (ubuntu_todos (Test_init 0))
        (snd (dict_setitem 0 ''evil'' [''rm'', ''-rf'', ''data'']
           (example_world [(''cuda'', [''nvcc'', ''--version''])])))
       = [(''cuda'', [''nvcc'', ''--version'']), (''evil'', [''rm'', ''-rf'', ''data''])]
   \<and> fst (not_installed example_runtime (Test_init 0) ''evil''
        (snd (dict_setitem 0 ''evil'' [''rm'', ''-rf'', ''data'']
           (example_world [(''cuda'', [''nvcc'', ''--version''])]))))
       = Returned False
   \<and> trace (snd (not_installed example_runtime (Test_init 0) ''evil''
        (snd (dict_setitem 0 ''evil'' [''rm'', ''-rf'', ''data'']
           (example_world [(''cuda'', [''nvcc'', ''--version''])])))))
       = [Spawned 0 (single_stage [''rm'', ''-rf'', ''data'']), Waited 0]"
  by (simp add: example_defs stage_defs dict_setitem_def proxy_setitem_def)

text \<open>
  C3. Every child is meant to be waited on before the probe returns. In the piped
  branch the first child is waited on only after \<open>check_output\<close> has returned: when
  the second stage cannot be started, \<open>not_installed\<close> returns true, and when it exits
  with a non-zero status, \<open>CalledProcessError\<close> propagates; in both runs the first
  child (identifier 0) has been started and no wait for it is in the trace.
\<close>

theorem first_stage_not_waited_on:
  "fst (not_installed example_runtime (Test_init 0) ''cudnn''
        (example_world [(''cudnn'', [''cat'', ''cudnn.h'', ''|'', ''absent'', ''CUDNN_MAJOR''])]))
       = Returned True
   \<and> trace (snd (not_installed example_runtime (Test_init 0) ''cudnn''
        (example_world [(''cudnn'', [''cat'', ''cudnn.h'', ''|'', ''absent'', ''CUDNN_MAJOR''])])))
       = [Spawned 0 (left_stage [''cat'', ''cudnn.h'', ''|'', ''absent'', ''CUDNN_MAJOR'']),
          StartFailed (right_stage [''cat'', ''cudnn.h'', ''|'', ''absent'', ''CUDNN_MAJOR''])]
   \<and> Waited 0 \<notin> set (trace (snd (not_installed example_runtime (Test_init 0) ''cudnn''
        (example_world [(''cudnn'', [''cat'', ''cudnn.h'', ''|'', ''absent'', ''CUDNN_MAJOR''])]))))
   \<and> fst (run_cmd example_runtime [''cat'', ''cudnn.h'', ''|'', ''false''] (example_world []))
       = Raised (CalledProcessError 1 [''false''])
   \<and> trace (snd (run_cmd example_runtime [''cat'', ''cudnn.h'', ''|'', ''false''] (example_world [])))
       = [Spawned 0 (left_stage [''cat'', ''cudnn.h'', ''|'', ''false'']),
          Spawned 1 (right_stage [''cat'', ''cudnn.h'', ''|'', ''false'']),
          Waited 1]"
  by (simp add: example_defs stage_defs)

text \<open>
  C9. The output of every child is meant to go to the null sink. Without a pipe both
  streams are \<open>DEVNULL\<close>. With a pipe neither child is given a \<open>stderr\<close>: both
  inherit the standard error of the checker, so what \<open>ls\<close> writes about the missing
  directory is shown to the user; the standard output of the second child is captured
  in a pipe, not sent to the null sink.
\<close>

theorem piped_children_inherit_stderr:
  "fst (not_installed example_runtime (Test_init 0) ''dataset''
        (example_world [(''dataset'', [''ls'', ''/nonexistent'', ''|'', ''cat''])]))
       = Returned False
   \<and> trace (snd (not_installed example_runtime (Test_init 0) ''dataset''
        (example_world [(''dataset'', [''ls'', ''/nonexistent'', ''|'', ''cat''])])))
       = [Spawned 0 \<lparr>args = [''ls'', ''/nonexistent''], stdin = Inherited,
                      stdout = PIPE, stderr = Inherited\<rparr>,
          Spawned 1 \<lparr>args = [''cat''], stdin = StdoutOf [''ls'', ''/nonexistent''],
                      stdout = PIPE, stderr = Inherited\<rparr>,
          Waited 1,
          Waited 0]"
  by (simp add: example_defs)

text \<open>The sibling branch: without a pipe the only child gets the null sink for both streams.\<close>

lemma run_cmd_single_trace:
  "''|'' \<notin> set cmds \<Longrightarrow>
     trace (snd (run_cmd rt cmds w)) = trace w @
       (case spawn rt (single_stage cmds) of
          NotFound \<Rightarrow> [StartFailed (single_stage cmds)]
        | StartFails m \<Rightarrow> [StartFailed (single_stage cmds)]
        | Exits c \<Rightarrow> [Spawned (next_pid w) (single_stage cmds), Waited (next_pid w)]
        | NeverExits \<Rightarrow> [Spawned (next_pid w) (single_stage cmds)])"
  by (simp add: run_cmd_def check_call_def Popen_def wait_def single_stage_def log_def
      split: outcome.splits)

end
